theory Spec2Isabelle
  imports Complex_Main
begin

section \<open>The camera navigation controller of the image viewer\<close>

text \<open>
  The controller is the component \<^verbatim>\<open>CameraRig\<close>. The repository holds it twice: the
  file with the cursor-directed zoom (the click-to-focus variant, whose control handle
  has \<^verbatim>\<open>reset\<close> and \<^verbatim>\<open>focusOn\<close>) and \<^verbatim>\<open>src/App.js\<close>, the variant that zooms
  along the view axis and focuses through a \<^verbatim>\<open>focusTarget\<close> prop. Definitions without
  a prefix embed the first file; the prefix \<open>App_\<close> marks what \<^verbatim>\<open>src/App.js\<close> does
  differently. Handlers whose text is the same in both files are embedded once.

  JavaScript numbers are embedded as real numbers: the arithmetic is the exact one,
  without the rounding of doubles and without the values NaN and Infinity.
\<close>

subsection \<open>Vectors, rays and events\<close>

text \<open>The vector classes of the scene library, with the fields the controller reads.\<close>

datatype Vector2 = Vector2 (vec2_x: real) (vec2_y: real)

datatype Vector3 = Vector3 (vec_x: real) (vec_y: real) (vec_z: real)

text \<open>
  The methods of \<^verbatim>\<open>Vector3\<close> that \<^verbatim>\<open>handleWheel\<close> calls. They belong to the scene
  library, which defines \<^verbatim>\<open>length()\<close> as the Euclidean norm and \<^verbatim>\<open>normalize()\<close> as
  \<^verbatim>\<open>this.divideScalar(this.length() || 1)\<close>, with \<^verbatim>\<open>divideScalar(s)\<close> being
  \<^verbatim>\<open>multiplyScalar(1 / s)\<close>: a vector of length zero is divided by one.
\<close>

definition Vector3_add :: "Vector3 \<Rightarrow> Vector3 \<Rightarrow> Vector3" where
  "Vector3_add a b = Vector3 (vec_x a + vec_x b) (vec_y a + vec_y b) (vec_z a + vec_z b)"

definition Vector3_sub :: "Vector3 \<Rightarrow> Vector3 \<Rightarrow> Vector3" where
  "Vector3_sub a b = Vector3 (vec_x a - vec_x b) (vec_y a - vec_y b) (vec_z a - vec_z b)"

definition Vector3_multiplyScalar :: "Vector3 \<Rightarrow> real \<Rightarrow> Vector3" where
  "Vector3_multiplyScalar a s = Vector3 (vec_x a * s) (vec_y a * s) (vec_z a * s)"

definition Vector3_length :: "Vector3 \<Rightarrow> real" where
  "Vector3_length a = sqrt (vec_x a * vec_x a + vec_y a * vec_y a + vec_z a * vec_z a)"

definition Vector3_divideScalar :: "Vector3 \<Rightarrow> real \<Rightarrow> Vector3" where
  "Vector3_divideScalar a s = Vector3_multiplyScalar a (1 / s)"

definition Vector3_normalize :: "Vector3 \<Rightarrow> Vector3" where
  "Vector3_normalize a =
     Vector3_divideScalar a (if Vector3_length a = 0 then 1 else Vector3_length a)"

datatype Ray = Ray (origin: Vector3) (direction: Vector3)

text \<open>The camera object of the renderer; the controller reads and writes its position.\<close>

record Camera =
  position :: Vector3

text \<open>
  \<^verbatim>\<open>Raycaster.setFromCamera(mouse, camera)\<close> is the scene library's: it is a parameter of
  the wheel handler, of this type, giving the ray that the call leaves in
  \<^verbatim>\<open>raycaster.ray\<close>. The orientation and the projection of the camera, which the
  controller never writes, are part of the function.
\<close>

type_synonym Raycaster = "Vector2 \<Rightarrow> Camera \<Rightarrow> Ray"

text \<open>The rectangle returned by \<^verbatim>\<open>renderer.domElement.getBoundingClientRect()\<close>.\<close>

record DOMRect =
  rect_left :: real
  rect_top :: real
  rect_width :: real
  rect_height :: real

record KeyboardEvent =
  key :: string

record MouseEvent =
  clientX :: real
  clientY :: real

record WheelEvent = MouseEvent +
  deltaY :: real

subsection \<open>The state of the rig\<close>

text \<open>
  The six refs of \<^verbatim>\<open>CameraRig\<close>. \<^verbatim>\<open>lastMouse\<close> holds an object \<^verbatim>\<open>{x, y}\<close>, embedded
  as the pair \<open>(x, y)\<close>.
\<close>

record CameraRig =
  targetX :: real
  targetY :: real
  targetZ :: real
  ctrlPressed :: bool
  isDragging :: bool
  lastMouse :: "real \<times> real"

text \<open>The refs as \<^verbatim>\<open>useRef\<close> creates them, for the camera the rig is mounted with.\<close>

definition initial_rig :: "Camera \<Rightarrow> CameraRig" where
  "initial_rig camera =
     \<lparr>targetX = 0, targetY = 0, targetZ = vec_z (position camera),
      ctrlPressed = False, isDragging = False, lastMouse = (0, 0)\<rparr>"

text \<open>The camera the \<^verbatim>\<open>Canvas\<close> is created with: \<^verbatim>\<open>camera={{ position: [0, 0, 10], fov: 75 }}\<close>.\<close>

definition initial_camera :: Camera where
  "initial_camera = \<lparr>position = Vector3 0 0 10\<rparr>"

text \<open>The navigation target, read as one vector.\<close>

definition NavigationTarget :: "CameraRig \<Rightarrow> Vector3" where
  "NavigationTarget s = Vector3 (targetX s) (targetY s) (targetZ s)"

subsection \<open>The control handle\<close>

definition reset :: "CameraRig \<Rightarrow> CameraRig" where
  "reset s = s\<lparr>targetX := 0, targetY := 0, targetZ := 10\<rparr>"

definition focusOn :: "real \<Rightarrow> real \<Rightarrow> real \<Rightarrow> CameraRig \<Rightarrow> CameraRig" where
  "focusOn x y z s = s\<lparr>targetX := x, targetY := y, targetZ := z + 5\<rparr>"

text \<open>
  In \<^verbatim>\<open>src/App.js\<close> the handle has \<^verbatim>\<open>reset\<close> only (the same text), and a click on an
  image sets the prop \<^verbatim>\<open>focusTarget\<close>, on whose change this effect runs. The prop is
  \<^verbatim>\<open>null\<close> or the position array of an image.
\<close>

definition App_focusTarget_effect :: "(real \<times> real \<times> real) option \<Rightarrow> CameraRig \<Rightarrow> CameraRig" where
  "App_focusTarget_effect focusTarget s =
     (case focusTarget of
        None \<Rightarrow> s
      | Some (x, y, z) \<Rightarrow> s\<lparr>targetX := x, targetY := y, targetZ := z + 10\<rparr>)"

subsection \<open>The event handlers\<close>

definition handleKeyDown :: "KeyboardEvent \<Rightarrow> CameraRig \<Rightarrow> CameraRig" where
  "handleKeyDown e s = (if key e = ''Control'' then s\<lparr>ctrlPressed := True\<rparr> else s)"

definition handleKeyUp :: "KeyboardEvent \<Rightarrow> CameraRig \<Rightarrow> CameraRig" where
  "handleKeyUp e s = (if key e = ''Control'' then s\<lparr>ctrlPressed := False\<rparr> else s)"

text \<open>
  The pointer in normalized device coordinates, the local \<^verbatim>\<open>mouse\<close> of \<^verbatim>\<open>handleWheel\<close>.
  For a rectangle of width or height zero JavaScript computes an infinity or NaN here,
  which the embedding does not have: statements about the zoom assume a rectangle with
  both extents non-zero.
\<close>

definition mouse :: "DOMRect \<Rightarrow> WheelEvent \<Rightarrow> Vector2" where
  "mouse rect e =
     Vector2 (((clientX e - rect_left rect) / rect_width rect) * 2 - 1)
             (- ((clientY e - rect_top rect) / rect_height rect) * 2 + 1)"

text \<open>
  \<^verbatim>\<open>handleWheel\<close>. Its first statement, \<^verbatim>\<open>e.preventDefault()\<close>, acts on the browser only.
  The ray caster and the rectangle of the canvas are what the handler obtains from the
  renderer, the camera is the shared camera object. The locals \<^verbatim>\<open>point\<close>,
  \<^verbatim>\<open>zoomFactor\<close> and \<^verbatim>\<open>direction\<close> of the zoom branch are definitions of their own
  (\<open>zoom_direction\<close> for the last, beside the field of the ray).
\<close>

definition point :: "Raycaster \<Rightarrow> DOMRect \<Rightarrow> Camera \<Rightarrow> WheelEvent \<Rightarrow> Vector3" where
  "point setFromCamera rect camera e =
     (let ray = setFromCamera (mouse rect e) camera
      in Vector3_add (origin ray) (Vector3_multiplyScalar (direction ray) 10))"

definition zoomFactor :: "WheelEvent \<Rightarrow> real" where
  "zoomFactor e = - deltaY e * 0.5"

definition zoom_direction :: "Raycaster \<Rightarrow> DOMRect \<Rightarrow> Camera \<Rightarrow> WheelEvent \<Rightarrow> Vector3" where
  "zoom_direction setFromCamera rect camera e =
     Vector3_normalize (Vector3_sub (point setFromCamera rect camera e) (position camera))"

definition handleWheel :: "Raycaster \<Rightarrow> DOMRect \<Rightarrow> Camera \<Rightarrow> WheelEvent \<Rightarrow> CameraRig \<Rightarrow> CameraRig" where
  "handleWheel setFromCamera rect camera e s =
     (if ctrlPressed s then
        (let direction = zoom_direction setFromCamera rect camera e
         in s\<lparr>targetX := targetX s + vec_x direction * zoomFactor e,
              targetY := targetY s + vec_y direction * zoomFactor e,
              targetZ := targetZ s + vec_z direction * zoomFactor e\<rparr>)
      else s\<lparr>targetY := targetY s + deltaY e * 0.06\<rparr>)"

text \<open>\<^verbatim>\<open>handleWheel\<close> of \<^verbatim>\<open>src/App.js\<close>: with the modifier, the wheel moves the target along z.\<close>

definition App_handleWheel :: "WheelEvent \<Rightarrow> CameraRig \<Rightarrow> CameraRig" where
  "App_handleWheel e s =
     (if ctrlPressed s then s\<lparr>targetZ := targetZ s + deltaY e * 0.05\<rparr>
      else s\<lparr>targetY := targetY s + deltaY e * 0.06\<rparr>)"

definition handleMouseDown :: "MouseEvent \<Rightarrow> CameraRig \<Rightarrow> CameraRig" where
  "handleMouseDown e s = s\<lparr>isDragging := True, lastMouse := (clientX e, clientY e)\<rparr>"

definition handleMouseMove :: "MouseEvent \<Rightarrow> CameraRig \<Rightarrow> CameraRig" where
  "handleMouseMove e s =
     (if \<not> isDragging s then s
      else
        (let dx = clientX e - fst (lastMouse s);
             dy = clientY e - snd (lastMouse s)
         in s\<lparr>targetX := targetX s - dx * 0.09,
              targetY := targetY s + dy * 0.09,
              lastMouse := (clientX e, clientY e)\<rparr>))"

definition handleMouseUp :: "CameraRig \<Rightarrow> CameraRig" where
  "handleMouseUp s = s\<lparr>isDragging := False\<rparr>"

subsection \<open>The frame callback\<close>

text \<open>\<^verbatim>\<open>useFrame\<close>: the one place where the position of the camera is written.\<close>

definition useFrame :: "CameraRig \<Rightarrow> Camera \<Rightarrow> Camera" where
  "useFrame s camera =
     camera\<lparr>position :=
       Vector3 (vec_x (position camera) + (targetX s - vec_x (position camera)) * 0.1)
               (vec_y (position camera) + (targetY s - vec_y (position camera)) * 0.1)
               (vec_z (position camera) + (targetZ s - vec_z (position camera)) * 0.1)\<rparr>"


subsection \<open>Sequences of events\<close>

text \<open>
  What reaches the rig: the six window events (a wheel event comes with the rectangle
  the canvas has at that moment), the two calls of the control handle, and the frame
  callback. \<open>dispatch\<close> is the registration of the listeners: each kind of event
  goes to its handler.
\<close>

datatype Intent =
    KeyDown KeyboardEvent
  | KeyUp KeyboardEvent
  | Wheel DOMRect WheelEvent
  | MouseDown MouseEvent
  | MouseMove MouseEvent
  | MouseUp
  | Reset
  | FocusOn real real real
  | Frame

fun dispatch :: "Raycaster \<Rightarrow> Intent \<Rightarrow> CameraRig \<times> Camera \<Rightarrow> CameraRig \<times> Camera" where
  "dispatch rc (KeyDown e) (s, camera) = (handleKeyDown e s, camera)"
| "dispatch rc (KeyUp e) (s, camera) = (handleKeyUp e s, camera)"
| "dispatch rc (Wheel rect e) (s, camera) = (handleWheel rc rect camera e s, camera)"
| "dispatch rc (MouseDown e) (s, camera) = (handleMouseDown e s, camera)"
| "dispatch rc (MouseMove e) (s, camera) = (handleMouseMove e s, camera)"
| "dispatch rc MouseUp (s, camera) = (handleMouseUp s, camera)"
| "dispatch rc Reset (s, camera) = (reset s, camera)"
| "dispatch rc (FocusOn x y z) (s, camera) = (focusOn x y z s, camera)"
| "dispatch rc Frame (s, camera) = (s, useFrame s camera)"

fun run :: "Raycaster \<Rightarrow> Intent list \<Rightarrow> CameraRig \<times> Camera \<Rightarrow> CameraRig \<times> Camera" where
  "run rc [] w = w"
| "run rc (i # is) w = run rc is (dispatch rc i w)"

text \<open>
  The same for \<^verbatim>\<open>src/App.js\<close>: a click on an image commits a new \<^verbatim>\<open>focusTarget\<close>, and
  the reset button calls \<^verbatim>\<open>reset()\<close> and then sets \<^verbatim>\<open>focusTarget\<close> to \<^verbatim>\<open>null\<close>.
\<close>

fun App_dispatch :: "Intent \<Rightarrow> CameraRig \<times> Camera \<Rightarrow> CameraRig \<times> Camera" where
  "App_dispatch (KeyDown e) (s, camera) = (handleKeyDown e s, camera)"
| "App_dispatch (KeyUp e) (s, camera) = (handleKeyUp e s, camera)"
| "App_dispatch (Wheel rect e) (s, camera) = (App_handleWheel e s, camera)"
| "App_dispatch (MouseDown e) (s, camera) = (handleMouseDown e s, camera)"
| "App_dispatch (MouseMove e) (s, camera) = (handleMouseMove e s, camera)"
| "App_dispatch MouseUp (s, camera) = (handleMouseUp s, camera)"
| "App_dispatch Reset (s, camera) = (App_focusTarget_effect None (reset s), camera)"
| "App_dispatch (FocusOn x y z) (s, camera) = (App_focusTarget_effect (Some (x, y, z)) s, camera)"
| "App_dispatch Frame (s, camera) = (s, useFrame s camera)"

fun App_run :: "Intent list \<Rightarrow> CameraRig \<times> Camera \<Rightarrow> CameraRig \<times> Camera" where
  "App_run [] w = w"
| "App_run (i # is) w = App_run is (App_dispatch i w)"

text \<open>The pan intents: the start, the moves and the end of a drag.\<close>

fun pan_intent :: "Intent \<Rightarrow> bool" where
  "pan_intent (MouseDown e) = True"
| "pan_intent (MouseMove e) = True"
| "pan_intent MouseUp = True"
| "pan_intent i = False"

subsection \<open>The zoom as the specification words it\<close>





subsection \<open>A concrete scene\<close>

text \<open>
  A ray caster to run the handlers on concrete events: that of a camera which is not
  rotated and looks down the negative z axis, where \<open>w\<close> and \<open>h\<close> are the half
  extents of the image plane at distance one. The ray starts at the camera and passes
  through the place of the pointer on that plane; at the centre of the canvas its
  direction is \<open>(0, 0, -1)\<close>.
\<close>

definition axis_raycaster :: "real \<Rightarrow> real \<Rightarrow> Raycaster" where
  "axis_raycaster w h m camera =
     Ray (position camera) (Vector3_normalize (Vector3 (vec2_x m * w) (vec2_y m * h) (- 1)))"

text \<open>A canvas of 800 by 600 pixels at the corner of the window.\<close>

definition canvas_rect :: DOMRect where
  "canvas_rect = \<lparr>rect_left = 0, rect_top = 0, rect_width = 800, rect_height = 600\<rparr>"

text \<open>A wheel event over the centre of that canvas.\<close>

definition wheel_at_center :: "real \<Rightarrow> WheelEvent" where
  "wheel_at_center d = \<lparr>clientX = 400, clientY = 300, deltaY = d\<rparr>"

text \<open>The rig as mounted, and with the modifier key held.\<close>

definition mounted_rig :: CameraRig where
  "mounted_rig = initial_rig initial_camera"

definition zooming_rig :: CameraRig where
  "zooming_rig = handleKeyDown \<lparr>key = ''Control''\<rparr> mounted_rig"

section \<open>Vectors, frames and the concrete scene\<close>

lemma sqrt_100: "sqrt 100 = 10"
  by (rule real_sqrt_unique) simp_all



lemma Vector3_sub_eq_0_iff: "Vector3_sub b a = Vector3 0 0 0 \<longleftrightarrow> b = a"
  by (cases a; cases b) (simp add: Vector3_sub_def)


lemma Vector3_normalize_zero: "Vector3_normalize (Vector3 0 0 0) = Vector3 0 0 0"
  by (simp add: Vector3_normalize_def Vector3_divideScalar_def Vector3_multiplyScalar_def)



lemma center_mouse: "mouse canvas_rect (wheel_at_center d) = Vector2 0 0"
  by (simp add: mouse_def canvas_rect_def wheel_at_center_def)

lemma center_ray:
  "axis_raycaster w h (Vector2 0 0) camera = Ray (position camera) (Vector3 0 0 (- 1))"
  by (simp add: axis_raycaster_def Vector3_normalize_def Vector3_length_def
      Vector3_divideScalar_def Vector3_multiplyScalar_def)

lemma center_point:
  "point (axis_raycaster w h) canvas_rect initial_camera (wheel_at_center d) = Vector3 0 0 0"
  by (simp add: point_def center_mouse center_ray initial_camera_def Vector3_add_def
      Vector3_multiplyScalar_def)

lemma normalize_down: "Vector3_normalize (Vector3 0 0 (- 10)) = Vector3 0 0 (- 1)"
  by (simp add: Vector3_normalize_def Vector3_length_def Vector3_divideScalar_def
      Vector3_multiplyScalar_def sqrt_100)

lemma center_direction:
  "zoom_direction (axis_raycaster w h) canvas_rect initial_camera (wheel_at_center d) =
   Vector3 0 0 (- 1)"
proof -
  have "Vector3_sub (Vector3 0 0 0) (position initial_camera) = Vector3 0 0 (- 10)"
    by (simp add: initial_camera_def Vector3_sub_def)
  then show ?thesis
    by (simp only: zoom_direction_def center_point normalize_down)
qed

lemma zooming_rig_eq:
  "zooming_rig = \<lparr>targetX = 0, targetY = 0, targetZ = 10,
      ctrlPressed = True, isDragging = False, lastMouse = (0, 0)\<rparr>"
  by (simp add: zooming_rig_def mounted_rig_def handleKeyDown_def initial_rig_def
      initial_camera_def)

lemma center_handleWheel:
  "targetZ (handleWheel (axis_raycaster w h) canvas_rect initial_camera (wheel_at_center d)
      zooming_rig) = 10 - zoomFactor (wheel_at_center d)"
  by (simp add: handleWheel_def Let_def center_direction zooming_rig_eq)

text \<open>
  When the point 10 units along the ray is the position of the camera itself, the vector
  to normalize has length zero, \<^verbatim>\<open>normalize()\<close> leaves it the zero vector, and the wheel
  handler with the modifier held leaves the rig as it is.
\<close>

lemma handleWheel_zero_length_direction:
  assumes "ctrlPressed s" and "point rc rect camera e = position camera"
  shows "handleWheel rc rect camera e s = s"
proof -
  have "Vector3_sub (point rc rect camera e) (position camera) = Vector3 0 0 0"
    using assms(2) by (simp add: Vector3_sub_eq_0_iff)
  then have "zoom_direction rc rect camera e = Vector3 0 0 0"
    by (simp add: zoom_direction_def Vector3_normalize_zero)
  then show ?thesis using assms(1) by (simp add: handleWheel_def)
qed

text \<open>With the modifier held, the wheel handler of \<^verbatim>\<open>src/App.js\<close> moves the target along z only.\<close>

lemma App_handleWheel_zoom:
  "ctrlPressed s \<Longrightarrow> App_handleWheel e s = s\<lparr>targetZ := targetZ s + deltaY e * 0.05\<rparr>"
  by (simp add: App_handleWheel_def)








lemma dispatch_pan_targetZ:
  "pan_intent i \<or> i = Frame \<Longrightarrow> targetZ (fst (dispatch rc i w)) = targetZ (fst w)"
  by (cases i; cases w)
    (simp_all add: handleMouseDown_def handleMouseMove_def handleMouseUp_def Let_def)

lemma App_dispatch_pan_targetZ:
  "pan_intent i \<or> i = Frame \<Longrightarrow> targetZ (fst (App_dispatch i w)) = targetZ (fst w)"
  by (cases i; cases w)
    (simp_all add: handleMouseDown_def handleMouseMove_def handleMouseUp_def Let_def)

lemma run_pan_targetZ:
  "\<forall>i\<in>set is. pan_intent i \<or> i = Frame \<Longrightarrow> targetZ (fst (run rc is w)) = targetZ (fst w)"
  by (induction "is" arbitrary: w) (simp_all add: dispatch_pan_targetZ)

lemma App_run_pan_targetZ:
  "\<forall>i\<in>set is. pan_intent i \<or> i = Frame \<Longrightarrow> targetZ (fst (App_run is w)) = targetZ (fst w)"
  by (induction "is" arbitrary: w) (simp_all add: App_dispatch_pan_targetZ)

section \<open>Properties\<close>

text \<open>
  C1, with the direction as the handler computes it. The modifier is held, the camera is
  at \<open>(0, 0, 10)\<close> and the ray through the pointer at the centre of the canvas, NDC
  \<open>(0, 0)\<close>, starts there with direction \<open>(0, 0, -1)\<close>. A wheel event with
  \<open>deltaY = -20\<close> has \<open>zoomFactor = 10\<close>; the point 10 units along the ray is the
  origin, the zoom direction, from the camera to that point, is \<open>(0, 0, -1)\<close>, and
  the z component of the navigation target changes by \<open>-10\<close>, toward the point, while
  the x and y components stay.
\<close>

theorem handleWheel_center_zoom:
  assumes "ctrlPressed s" and "rect_width rect \<noteq> 0" and "rect_height rect \<noteq> 0"
    and "mouse rect e = Vector2 0 0"
    and "position camera = Vector3 0 0 10"
    and "rc (Vector2 0 0) camera = Ray (Vector3 0 0 10) (Vector3 0 0 (- 1))"
    and "deltaY e = - 20"
  shows "zoomFactor e = 10 \<and>
    point rc rect camera e = Vector3 0 0 0 \<and>
    zoom_direction rc rect camera e = Vector3 0 0 (- 1) \<and>
    targetX (handleWheel rc rect camera e s) = targetX s \<and>
    targetY (handleWheel rc rect camera e s) = targetY s \<and>
    targetZ (handleWheel rc rect camera e s) = targetZ s - 10"
proof -
  have z: "zoomFactor e = 10" using assms(7) by (simp add: zoomFactor_def)
  have p: "point rc rect camera e = Vector3 0 0 0"
    using assms(4,6) by (simp add: point_def Vector3_add_def Vector3_multiplyScalar_def)
  have "Vector3_sub (Vector3 0 0 0) (position camera) = Vector3 0 0 (- 10)"
    using assms(5) by (simp add: Vector3_sub_def)
  then have d: "zoom_direction rc rect camera e = Vector3 0 0 (- 1)"
    by (simp only: zoom_direction_def p normalize_down)
  show ?thesis using assms(1) by (simp add: z p d handleWheel_def)
qed

theorem handleWheel_center_zoom_witness:
  "ctrlPressed zooming_rig \<and> rect_width canvas_rect \<noteq> 0 \<and> rect_height canvas_rect \<noteq> 0 \<and>
   mouse canvas_rect (wheel_at_center (- 20)) = Vector2 0 0 \<and>
   position initial_camera = Vector3 0 0 10 \<and>
   axis_raycaster 1 1 (Vector2 0 0) initial_camera = Ray (Vector3 0 0 10) (Vector3 0 0 (- 1)) \<and>
   deltaY (wheel_at_center (- 20)) = - 20 \<and>
   zoomFactor (wheel_at_center (- 20)) = 10 \<and>
   targetZ (handleWheel (axis_raycaster 1 1) canvas_rect initial_camera (wheel_at_center (- 20))
      zooming_rig) = 0"
proof -
  have a: "ctrlPressed zooming_rig" by (simp add: zooming_rig_eq)
  have b: "rect_width canvas_rect \<noteq> 0" by (simp add: canvas_rect_def)
  have c: "rect_height canvas_rect \<noteq> 0" by (simp add: canvas_rect_def)
  have d: "mouse canvas_rect (wheel_at_center (- 20)) = Vector2 0 0" by (rule center_mouse)
  have e: "position initial_camera = Vector3 0 0 10" by (simp add: initial_camera_def)
  have f: "axis_raycaster 1 1 (Vector2 0 0) initial_camera =
      Ray (Vector3 0 0 10) (Vector3 0 0 (- 1))"
    by (simp add: center_ray e)
  have g: "deltaY (wheel_at_center (- 20)) = - 20" by (simp add: wheel_at_center_def)
  have h: "targetZ zooming_rig = 10" by (simp add: zooming_rig_eq)
  have "targetZ (handleWheel (axis_raycaster 1 1) canvas_rect initial_camera
      (wheel_at_center (- 20)) zooming_rig) = targetZ zooming_rig - 10 \<and>
    zoomFactor (wheel_at_center (- 20)) = 10"
    using handleWheel_center_zoom [where s = zooming_rig and rect = canvas_rect
        and e = "wheel_at_center (- 20)" and camera = initial_camera
        and rc = "axis_raycaster 1 1", OF a b c d e f g]
    by blast
  then have "targetZ (handleWheel (axis_raycaster 1 1) canvas_rect initial_camera
      (wheel_at_center (- 20)) zooming_rig) = 0 \<and> zoomFactor (wheel_at_center (- 20)) = 10"
    by (simp add: h)
  with a b c d e f g show ?thesis by blast
qed

text \<open>
  The scenario as the specification states it, with the zoom direction \<open>(0, 0, 1)\<close> and
  a change of the z component by \<open>+10\<close>, is not what the handler does on the mounted
  rig with the modifier held.
\<close>

theorem handleWheel_center_counterexample:
  "ctrlPressed zooming_rig \<and>
   position initial_camera = Vector3 0 0 10 \<and>
   mouse canvas_rect (wheel_at_center (- 20)) = Vector2 0 0 \<and>
   axis_raycaster 1 1 (Vector2 0 0) initial_camera = Ray (Vector3 0 0 10) (Vector3 0 0 (- 1)) \<and>
   zoomFactor (wheel_at_center (- 20)) = 10 \<and>
   zoom_direction (axis_raycaster 1 1) canvas_rect initial_camera (wheel_at_center (- 20)) \<noteq>
     Vector3 0 0 1 \<and>
   targetZ (handleWheel (axis_raycaster 1 1) canvas_rect initial_camera (wheel_at_center (- 20))
      zooming_rig) - targetZ zooming_rig = - 10 \<and>
   targetZ (handleWheel (axis_raycaster 1 1) canvas_rect initial_camera (wheel_at_center (- 20))
      zooming_rig) - targetZ zooming_rig \<noteq> 10"
proof -
  have a: "ctrlPressed zooming_rig" by (simp add: zooming_rig_eq)
  have b: "position initial_camera = Vector3 0 0 10" by (simp add: initial_camera_def)
  have c: "mouse canvas_rect (wheel_at_center (- 20)) = Vector2 0 0" by (rule center_mouse)
  have d: "axis_raycaster 1 1 (Vector2 0 0) initial_camera =
      Ray (Vector3 0 0 10) (Vector3 0 0 (- 1))"
    by (simp add: center_ray b)
  have e: "zoomFactor (wheel_at_center (- 20)) = 10"
    by (simp add: zoomFactor_def wheel_at_center_def)
  have f: "zoom_direction (axis_raycaster 1 1) canvas_rect initial_camera
      (wheel_at_center (- 20)) \<noteq> Vector3 0 0 1"
    unfolding center_direction by simp
  have g: "targetZ (handleWheel (axis_raycaster 1 1) canvas_rect initial_camera
      (wheel_at_center (- 20)) zooming_rig) - targetZ zooming_rig = - 10"
    unfolding center_handleWheel e by (simp add: zooming_rig_eq)
  have h: "targetZ (handleWheel (axis_raycaster 1 1) canvas_rect initial_camera
      (wheel_at_center (- 20)) zooming_rig) - targetZ zooming_rig \<noteq> 10"
    unfolding g by simp
  from a b c d e f g h show ?thesis by blast
qed




text \<open>
  C4. From every state \<^verbatim>\<open>focusOn(x, y, z)\<close> leaves the navigation target at exactly
  \<open>(x, y, z + focusOffset)\<close> for one constant offset between 5 and 10 (it is 5), and
  a second call with other arguments leaves the state that this call alone would
  leave: the target is that of the latest call. The focus effect of \<^verbatim>\<open>src/App.js\<close>
  does the same with the offset 10.
\<close>

theorem focusOn_target:
  "NavigationTarget (focusOn x y z s) = Vector3 x y (z + 5) \<and>
   (\<exists>focusOffset. 5 \<le> focusOffset \<and> focusOffset \<le> 10 \<and>
      (\<forall>a b c r. NavigationTarget (focusOn a b c r) = Vector3 a b (c + focusOffset))) \<and>
   focusOn x' y' z' (focusOn x y z s) = focusOn x' y' z' s \<and>
   NavigationTarget (focusOn x' y' z' (focusOn x y z s)) = Vector3 x' y' (z' + 5) \<and>
   NavigationTarget (App_focusTarget_effect (Some (x, y, z)) s) = Vector3 x y (z + 10) \<and>
   (\<exists>focusOffset. 5 \<le> focusOffset \<and> focusOffset \<le> 10 \<and>
      (\<forall>a b c r. NavigationTarget (App_focusTarget_effect (Some (a, b, c)) r) =
         Vector3 a b (c + focusOffset))) \<and>
   App_focusTarget_effect (Some (x', y', z')) (App_focusTarget_effect (Some (x, y, z)) s) =
     App_focusTarget_effect (Some (x', y', z')) s \<and>
   NavigationTarget
     (App_focusTarget_effect (Some (x', y', z')) (App_focusTarget_effect (Some (x, y, z)) s)) =
     Vector3 x' y' (z' + 10)"
proof -
  have a: "NavigationTarget (focusOn a b c r) = Vector3 a b (c + 5)" for a b c r
    by (simp add: focusOn_def NavigationTarget_def)
  have b: "NavigationTarget (App_focusTarget_effect (Some (a, b, c)) r) = Vector3 a b (c + 10)"
    for a b c r
    by (simp add: App_focusTarget_effect_def NavigationTarget_def)
  have c: "focusOn x' y' z' (focusOn x y z s) = focusOn x' y' z' s"
    by (simp add: focusOn_def)
  have d: "App_focusTarget_effect (Some (x', y', z')) (App_focusTarget_effect (Some (x, y, z)) s) =
     App_focusTarget_effect (Some (x', y', z')) s"
    by (simp add: App_focusTarget_effect_def)
  have e: "\<exists>focusOffset. 5 \<le> focusOffset \<and> focusOffset \<le> 10 \<and>
      (\<forall>a b c r. NavigationTarget (focusOn a b c r) = Vector3 a b (c + focusOffset))"
    using a by (intro exI [of _ 5]) simp
  have f: "\<exists>focusOffset. 5 \<le> focusOffset \<and> focusOffset \<le> 10 \<and>
      (\<forall>a b c r. NavigationTarget (App_focusTarget_effect (Some (a, b, c)) r) =
         Vector3 a b (c + focusOffset))"
    using b by (intro exI [of _ 10]) simp
  show ?thesis
    unfolding c d using a b e f by blast
qed

text \<open>
  C5. From every state of the rig, also in the middle of a drag, \<^verbatim>\<open>reset()\<close> leaves the
  navigation target at exactly \<open>(0, 0, 10)\<close>, and \<open>10\<close> is the z coordinate the
  camera starts with: the target after a reset is the target of the freshly mounted rig.
\<close>

theorem reset_target:
  "NavigationTarget (reset s) = Vector3 0 0 10 \<and>
   NavigationTarget (reset (s\<lparr>isDragging := True\<rparr>)) = Vector3 0 0 10 \<and>
   NavigationTarget (reset s) = NavigationTarget (initial_rig initial_camera) \<and>
   vec_z (position initial_camera) = 10"
  by (simp add: reset_def NavigationTarget_def initial_rig_def initial_camera_def)



text \<open>
  C8. A wheel event while the modifier is not held adds \<open>deltaY * 0.06\<close> to the y
  component of the navigation target and changes nothing else, in both files; for
  \<open>deltaY = -100\<close> the y component changes by exactly \<open>-6\<close>.
\<close>

theorem handleWheel_pan:
  assumes "\<not> ctrlPressed s"
  shows "handleWheel rc rect camera e s = s\<lparr>targetY := targetY s + deltaY e * 0.06\<rparr> \<and>
    App_handleWheel e s = s\<lparr>targetY := targetY s + deltaY e * 0.06\<rparr> \<and>
    (deltaY e = - 100 \<longrightarrow>
       targetY (handleWheel rc rect camera e s) - targetY s = - 6 \<and>
       targetY (App_handleWheel e s) - targetY s = - 6)"
  using assms by (simp add: handleWheel_def App_handleWheel_def)

theorem handleWheel_pan_witness:
  "\<not> ctrlPressed mounted_rig \<and> deltaY (wheel_at_center (- 100)) = - 100 \<and>
   targetY (handleWheel (axis_raycaster 1 1) canvas_rect initial_camera (wheel_at_center (- 100))
      mounted_rig) = - 6 \<and>
   targetY (App_handleWheel (wheel_at_center (- 100)) mounted_rig) = - 6 \<and>
   targetX (handleWheel (axis_raycaster 1 1) canvas_rect initial_camera (wheel_at_center (- 100))
      mounted_rig) = 0 \<and>
   targetZ (handleWheel (axis_raycaster 1 1) canvas_rect initial_camera (wheel_at_center (- 100))
      mounted_rig) = 10"
proof -
  have a: "\<not> ctrlPressed mounted_rig" by (simp add: mounted_rig_def initial_rig_def)
  have b: "deltaY (wheel_at_center (- 100)) = - 100" by (simp add: wheel_at_center_def)
  have c: "targetX mounted_rig = 0 \<and> targetY mounted_rig = 0 \<and> targetZ mounted_rig = 10"
    by (simp add: mounted_rig_def initial_rig_def initial_camera_def)
  show ?thesis
    using handleWheel_pan [OF a, of "axis_raycaster 1 1" canvas_rect initial_camera
        "wheel_at_center (- 100)"] a b c
    by simp
qed

text \<open>
  C9. Over every sequence of pan intents (the start, the moves and the end of drags),
  with no wheel event and no call of the control handle among them, the z component of
  the navigation target keeps the value it had before; frames may be rendered in
  between. This holds for both files.
\<close>

theorem pan_keeps_targetZ:
  assumes "\<forall>i\<in>set is. pan_intent i \<or> i = Frame"
  shows "targetZ (fst (run rc is (s, camera))) = targetZ s \<and>
    targetZ (fst (App_run is (s, camera))) = targetZ s"
  using assms run_pan_targetZ [of "is" rc "(s, camera)"] App_run_pan_targetZ [of "is" "(s, camera)"]
  by simp

theorem pan_keeps_targetZ_witness:
  "pan_intent (MouseDown \<lparr>clientX = 100, clientY = 50\<rparr>) \<and>
   pan_intent (MouseMove \<lparr>clientX = 110, clientY = 45\<rparr>) \<and>
   pan_intent MouseUp \<and>
   targetZ (fst (run (axis_raycaster 1 1)
     [MouseDown \<lparr>clientX = 100, clientY = 50\<rparr>, Frame,
      MouseMove \<lparr>clientX = 110, clientY = 45\<rparr>, MouseUp]
     (mounted_rig, initial_camera))) = 10 \<and>
   targetZ (fst (App_run
     [MouseDown \<lparr>clientX = 100, clientY = 50\<rparr>, Frame,
      MouseMove \<lparr>clientX = 110, clientY = 45\<rparr>, MouseUp]
     (mounted_rig, initial_camera))) = 10 \<and>
   targetX (fst (run (axis_raycaster 1 1)
     [MouseDown \<lparr>clientX = 100, clientY = 50\<rparr>, Frame,
      MouseMove \<lparr>clientX = 110, clientY = 45\<rparr>, MouseUp]
     (mounted_rig, initial_camera))) = - 0.9"
proof -
  have a: "\<forall>i\<in>set [MouseDown \<lparr>clientX = 100, clientY = 50\<rparr>, Frame,
      MouseMove \<lparr>clientX = 110, clientY = 45\<rparr>, MouseUp]. pan_intent i \<or> i = Frame"
    by simp
  have c: "targetZ mounted_rig = 10"
    by (simp add: mounted_rig_def initial_rig_def initial_camera_def)
  have x: "targetX (fst (run (axis_raycaster 1 1)
     [MouseDown \<lparr>clientX = 100, clientY = 50\<rparr>, Frame,
      MouseMove \<lparr>clientX = 110, clientY = 45\<rparr>, MouseUp]
     (mounted_rig, initial_camera))) = - 0.9"
    by (simp add: handleMouseDown_def handleMouseMove_def handleMouseUp_def Let_def
        mounted_rig_def initial_rig_def)
  show ?thesis
    using pan_keeps_targetZ [OF a, of "axis_raycaster 1 1" mounted_rig initial_camera] c x
    by simp
qed

text \<open>
  C10. \<^verbatim>\<open>reset()\<close> and \<^verbatim>\<open>focusOn(x, y, z)\<close> write the three target refs only: the
  modifier flag, the drag flag and the last pointer position are what they were, so a
  reset in the middle of a drag leaves the drag in progress. The same holds for the
  focus effect of \<^verbatim>\<open>src/App.js\<close>.
\<close>

theorem control_calls_frame:
  "ctrlPressed (reset s) = ctrlPressed s \<and>
   isDragging (reset s) = isDragging s \<and>
   lastMouse (reset s) = lastMouse s \<and>
   ctrlPressed (focusOn x y z s) = ctrlPressed s \<and>
   isDragging (focusOn x y z s) = isDragging s \<and>
   lastMouse (focusOn x y z s) = lastMouse s \<and>
   ctrlPressed (App_focusTarget_effect ft s) = ctrlPressed s \<and>
   isDragging (App_focusTarget_effect ft s) = isDragging s \<and>
   lastMouse (App_focusTarget_effect ft s) = lastMouse s \<and>
   isDragging (reset (s\<lparr>isDragging := True\<rparr>))"
  by (simp add: reset_def focusOn_def App_focusTarget_effect_def split: option.split)

end
